theory Spec2Isabelle
  imports Complex_Main "HOL-Library.AList" "HOL-Library.Char_ord" "HOL-Library.List_Lexorder"
    "HOL-Library.Multiset"
begin

section \<open>Data model\<close>

text \<open>
  The dashboard script \<^verbatim>\<open>app_india-checkpoint.py\<close> reads one CSV table into a pandas DataFrame and
  derives everything else from it. A row of the table is a record. A cell that pandas reads
  as missing (NaN) is \<open>None\<close>. The columns \<open>job_category\<close> and \<open>seniority\<close> are plain
  strings: the script sorts their distinct values at start-up, which pandas' mix of strings
  and NaN does not survive. Salaries are 64-bit floats in the script; here they are real
  numbers, so the rounding of float arithmetic is not part of the model. A skill indicator
  column is boolean and is read through \<open>skill\<close> by column name. Strings are byte strings
  (UTF-8).
\<close>

record JobPosting =
  job_title :: "string option"
  company :: "string option"
  job_category :: string
  seniority :: string
  avg_salary_lpa :: "real option"
  min_experience_clean :: "int option"
  skill :: "string \<Rightarrow> bool"

record DataFrame =
  columns :: "string list"
  rows :: "JobPosting list"

text \<open>The values of the four sidebar widgets, as the script names them.\<close>

record FilterCriteria =
  selected_categories :: "string list"
  selected_seniority :: string
  salary_range :: "real \<times> real"
  exp_range :: "int \<times> int"

section \<open>The pandas operations the script uses\<close>

text \<open>\<open>Series.isin(values)\<close>.\<close>

definition isin :: "'a \<Rightarrow> 'a list \<Rightarrow> bool" where
  "isin v vs = (v \<in> set vs)"

text \<open>\<open>Series.between(left, right)\<close>, both ends inclusive; a missing value is not between
  anything.\<close>

definition between :: "'a::linorder option \<Rightarrow> 'a \<Rightarrow> 'a \<Rightarrow> bool" where
  "between v left right = (case v of None \<Rightarrow> False | Some x \<Rightarrow> left \<le> x \<and> x \<le> right)"

text \<open>Selecting rows by a boolean mask keeps the columns.\<close>

definition select_rows :: "(JobPosting \<Rightarrow> bool) \<Rightarrow> DataFrame \<Rightarrow> DataFrame" where
  "select_rows p df = df\<lparr>rows := filter p (rows df)\<rparr>"

text \<open>\<open>len(df)\<close>.\<close>

definition len :: "DataFrame \<Rightarrow> nat" where
  "len df = length (rows df)"

text \<open>The values of a column that are present (pandas skips NaN in every reduction).\<close>

definition dropna :: "'a option list \<Rightarrow> 'a list" where
  "dropna vs = List.map_filter id vs"

text \<open>\<open>Series.median()\<close>: NaN on a series with no value, else the middle of the sorted
  values, the mean of the two middle ones when their number is even.\<close>

definition median_of :: "real list \<Rightarrow> real option" where
  "median_of xs =
     (let s = sort xs; n = length s
      in if n = 0 then None
         else if odd n then Some (s ! (n div 2))
         else Some ((s ! (n div 2 - 1) + s ! (n div 2)) / 2))"

definition median :: "real option list \<Rightarrow> real option" where
  "median vs = median_of (dropna vs)"

text \<open>\<open>Series.mean()\<close> of an integer column: NaN when no value is present.\<close>

definition mean :: "int option list \<Rightarrow> real option" where
  "mean vs =
     (let xs = dropna vs
      in if xs = [] then None else Some (real_of_int (sum_list xs) / real (length xs)))"

text \<open>\<open>Series.count()\<close>: the number of values that are present.\<close>

definition count_notna :: "'a option list \<Rightarrow> nat" where
  "count_notna vs = length (dropna vs)"

text \<open>\<open>Series.unique()\<close>: the distinct values in the order of their first appearance.\<close>

definition unique :: "'a list \<Rightarrow> 'a list" where
  "unique xs = rev (remdups (rev xs))"

text \<open>\<open>head(n)\<close>.\<close>

definition head :: "nat \<Rightarrow> 'a list \<Rightarrow> 'a list" where
  "head n t = take n t"

text \<open>
  A descending sort by key that keeps rows of equal key in their order. It is Python's
  \<open>sorted(..., reverse=True)\<close>, and it is what pandas does for \<open>ascending=False\<close>: reverse,
  sort ascending, reverse again. pandas' default sort kind is not stable on long tables;
  the order among equal keys is fixed here to the stable one.
\<close>

definition sort_desc :: "('a \<Rightarrow> 'k::linorder) \<Rightarrow> 'a list \<Rightarrow> 'a list" where
  "sort_desc key t = rev (sort_key key (rev t))"

text \<open>\<open>sort_values(column, ascending=...)\<close> on a float column: the rows with a value are
  sorted, the rows with NaN follow them (\<open>na_position='last'\<close>).\<close>

definition sort_values :: "bool \<Rightarrow> ('a \<Rightarrow> real option) \<Rightarrow> 'a list \<Rightarrow> 'a list" where
  "sort_values ascending col t =
     (let non_nans = filter (\<lambda>x. col x \<noteq> None) t;
          nans = filter (\<lambda>x. col x = None) t
      in (if ascending then sort_key (the \<circ> col) non_nans else sort_desc (the \<circ> col) non_nans)
         @ nans)"

text \<open>\<open>sort_index()\<close> of a table keyed by its first component.\<close>

definition sort_index :: "('k::linorder \<times> 'v) list \<Rightarrow> ('k \<times> 'v) list" where
  "sort_index t = sort_key fst t"

text \<open>\<open>groupby(column)\<close>: one group per distinct key that is present, the keys in ascending
  order, each group holding its rows in table order. Rows whose key is NaN are in no
  group.\<close>

definition groupby :: "('r \<Rightarrow> 'k::linorder option) \<Rightarrow> 'r list \<Rightarrow> ('k \<times> 'r list) list" where
  "groupby key t =
     map (\<lambda>k. (k, filter (\<lambda>r. key r = Some k) t)) (sort (remdups (dropna (map key t))))"

text \<open>\<open>Series.value_counts()\<close>: how often each present value occurs, most frequent first.\<close>

definition value_counts :: "'a option list \<Rightarrow> ('a \<times> nat) list" where
  "value_counts vs =
     (let xs = dropna vs
      in sort_desc snd (map (\<lambda>v. (v, count_list xs v)) (unique xs)))"

text \<open>\<open>numpy.rint\<close>: the nearest integer, the even one on a tie; \<open>round(1)\<close> rounds to one
  decimal with it.\<close>

definition rint :: "real \<Rightarrow> int" where
  "rint x =
     (let f = \<lfloor>x\<rfloor>; d = x - of_int f
      in if d < 1 / 2 then f else if d > 1 / 2 then f + 1 else if even f then f else f + 1)"

definition round1 :: "real \<Rightarrow> real" where
  "round1 x = of_int (rint (x * 10)) / 10"

subsection \<open>Python strings\<close>

text \<open>\<open>s.startswith(p)\<close>.\<close>

definition startswith :: "string \<Rightarrow> string \<Rightarrow> bool" where
  "startswith s p = (take (length p) s = p)"

text \<open>\<open>s.replace(old, new)\<close> for a non-empty \<open>old\<close> (both calls of the script have one):
  every occurrence, left to right, without overlap.\<close>

function py_replace :: "string \<Rightarrow> string \<Rightarrow> string \<Rightarrow> string" where
  "py_replace old new [] = []"
| "py_replace old new (c # cs) =
     (if old \<noteq> [] \<and> startswith (c # cs) old
      then new @ py_replace old new (drop (length old) (c # cs))
      else c # py_replace old new cs)"
  by pat_completeness auto
termination
  by (relation "measure (\<lambda>(old, new, s). length s)") (auto simp: neq_Nil_conv)

text \<open>\<open>s.title()\<close> on ASCII letters: a letter that follows a letter is lowered, any other
  letter is raised. Bytes outside \<open>A-Z\<close>, \<open>a-z\<close> are kept and end a word.\<close>

definition is_lower :: "char \<Rightarrow> bool" where
  "is_lower c = (CHR ''a'' \<le> c \<and> c \<le> CHR ''z'')"

definition is_upper :: "char \<Rightarrow> bool" where
  "is_upper c = (CHR ''A'' \<le> c \<and> c \<le> CHR ''Z'')"

definition to_upper :: "char \<Rightarrow> char" where
  "to_upper c = (if is_lower c then char_of (of_char c - (32::nat)) else c)"

definition to_lower :: "char \<Rightarrow> char" where
  "to_lower c = (if is_upper c then char_of (of_char c + (32::nat)) else c)"

fun title_from :: "bool \<Rightarrow> string \<Rightarrow> string" where
  "title_from previous_is_cased [] = []"
| "title_from previous_is_cased (c # cs) =
     (if is_lower c then (if previous_is_cased then c else to_upper c) # title_from True cs
      else if is_upper c then (if previous_is_cased then to_lower c else c) # title_from True cs
      else c # title_from False cs)"

definition py_title :: "string \<Rightarrow> string" where
  "py_title s = title_from False s"

text \<open>The format specification \<open>.1f\<close> of an f-string: \<open>nan\<close> for NaN, else the sign, the
  integer part and one decimal, rounded to the nearest with ties to even.\<close>

fun digits :: "nat \<Rightarrow> string" where
  "digits n = (if n < 10 then [char_of (48 + n)] else digits (n div 10) @ [char_of (48 + n mod 10)])"

definition fmt_1f :: "real option \<Rightarrow> string" where
  "fmt_1f v =
     (case v of
        None \<Rightarrow> ''nan''
      | Some x \<Rightarrow>
          (let t = rint (\<bar>x\<bar> * 10)
           in (if x < 0 then ''-'' else []) @ digits (nat (t div 10)) @ ''.'' @
              digits (nat (t mod 10))))"

section \<open>Applying the filters (lines 64 to 71)\<close>

definition apply_filters :: "DataFrame \<Rightarrow> FilterCriteria \<Rightarrow> DataFrame" where
  "apply_filters df c =
     (let filtered_df =
            select_rows (\<lambda>r. isin (job_category r) (selected_categories c) \<and>
                       between (avg_salary_lpa r) (fst (salary_range c)) (snd (salary_range c)) \<and>
                       between (min_experience_clean r) (fst (exp_range c)) (snd (exp_range c)))
                 df
      in if selected_seniority c \<noteq> ''All''
         then select_rows (\<lambda>r. seniority r = selected_seniority c) filtered_df
         else filtered_df)"

text \<open>The filter as the specification words it: one conjunction of four predicates on a
  row.\<close>

definition satisfies :: "FilterCriteria \<Rightarrow> JobPosting \<Rightarrow> bool" where
  "satisfies c r =
     (job_category r \<in> set (selected_categories c) \<and>
      (\<exists>s. avg_salary_lpa r = Some s \<and> fst (salary_range c) \<le> s \<and> s \<le> snd (salary_range c)) \<and>
      (\<exists>e. min_experience_clean r = Some e \<and> fst (exp_range c) \<le> e \<and> e \<le> snd (exp_range c)) \<and>
      (selected_seniority c = ''All'' \<or> seniority r = selected_seniority c))"

section \<open>Header metrics (lines 73 to 91)\<close>

definition total_jobs :: "DataFrame \<Rightarrow> nat" where
  "total_jobs filtered_df = len filtered_df"

definition median_salary :: "DataFrame \<Rightarrow> real option" where
  "median_salary filtered_df = median (map avg_salary_lpa (rows filtered_df))"

text \<open>The text of the metric: the rupee sign (three bytes in UTF-8), the median to one
  decimal, and the unit.\<close>

definition median_salary_metric :: "DataFrame \<Rightarrow> string" where
  "median_salary_metric filtered_df =
     [CHR 0xE2, CHR 0x82, CHR 0xB9] @ fmt_1f (median_salary filtered_df) @ '' LPA''"

definition avg_exp :: "DataFrame \<Rightarrow> real option" where
  "avg_exp filtered_df = mean (map min_experience_clean (rows filtered_df))"

definition avg_exp_metric :: "DataFrame \<Rightarrow> string" where
  "avg_exp_metric filtered_df = fmt_1f (avg_exp filtered_df) @ '' yrs''"

text \<open>The "Top Category" metric of line 337: the most frequent category, the least one when
  several are equally frequent (\<open>mode()[0]\<close>), and the placeholder "N/A" when the view is
  empty. The mode of a column with a value is not empty.\<close>

definition mode :: "string list \<Rightarrow> string list" where
  "mode xs = sort (filter (\<lambda>v. \<forall>w \<in> set xs. count_list xs w \<le> count_list xs v) (remdups xs))"

definition top_cat :: "DataFrame \<Rightarrow> string" where
  "top_cat filtered_df =
     (if len filtered_df > 0 then hd (mode (map job_category (rows filtered_df))) else ''N/A'')"

section \<open>Salary analysis (lines 121 to 144)\<close>

text \<open>Median salary per seniority level, ascending by the median.\<close>

definition salary_by_seniority :: "DataFrame \<Rightarrow> (string \<times> real option) list" where
  "salary_by_seniority filtered_df =
     sort_values True snd
       (map (\<lambda>(k, g). (k, median (map avg_salary_lpa g)))
            (groupby (Some \<circ> seniority) (rows filtered_df)))"

text \<open>Per category: the median salary and the \<open>count\<close> of the \<open>job_title\<close> column, that is
  the number of rows of the group whose title is present. An entry is
  \<open>(job_category, avg_salary_lpa, count)\<close>.\<close>

definition cat_salary :: "DataFrame \<Rightarrow> (string \<times> real option \<times> nat) list" where
  "cat_salary filtered_df =
     (let agg = map (\<lambda>(k, g). (k, median (map avg_salary_lpa g), count_notna (map job_title g)))
                    (groupby (Some \<circ> job_category) (rows filtered_df))
      in head 10 (sort_values False (fst \<circ> snd) (filter (\<lambda>e. snd (snd e) \<ge> 5) agg)))"

section \<open>Skills analysis (lines 166 to 181)\<close>

definition skill_cols :: "DataFrame \<Rightarrow> string list" where
  "skill_cols filtered_df = filter (\<lambda>col. startswith col ''skill_'') (columns filtered_df)"

definition skill_name :: "string \<Rightarrow> string" where
  "skill_name col = py_title (py_replace ''_'' '' '' (py_replace ''skill_'' [] col))"

text \<open>The sum of a boolean column: the number of rows where it is true.\<close>

definition column_sum :: "DataFrame \<Rightarrow> string \<Rightarrow> nat" where
  "column_sum filtered_df col = length (filter (\<lambda>r. skill r col) (rows filtered_df))"

text \<open>The body of the loop of lines 168 to 172 on the dictionary \<open>skill_counts\<close>, kept in
  insertion order: assigning to a name that is already a key replaces its count where it
  stands.\<close>

definition count_step :: "DataFrame \<Rightarrow> (string \<times> nat) list \<Rightarrow> string \<Rightarrow> (string \<times> nat) list" where
  "count_step filtered_df skill_counts col =
     (let skill_name = skill_name col;
          count = column_sum filtered_df col
      in if count > 0 then AList.update skill_name count skill_counts else skill_counts)"

definition skill_counts :: "DataFrame \<Rightarrow> (string \<times> nat) list" where
  "skill_counts filtered_df = foldl (count_step filtered_df) [] (skill_cols filtered_df)"

text \<open>\<open>dict(sorted(skill_counts.items(), key=lambda x: x[1], reverse=True)[:12])\<close>.\<close>

definition top_skills :: "DataFrame \<Rightarrow> (string \<times> nat) list" where
  "top_skills filtered_df = take 12 (sort_desc snd (skill_counts filtered_df))"

text \<open>The table \<open>skills_df\<close> with the columns Skill, Count and Percentage; \<open>None\<close> when the
  script shows its "no skill data" message instead. The division is by the number of rows of
  the view, which is positive whenever a count is.\<close>

definition skills_df :: "DataFrame \<Rightarrow> (string \<times> nat \<times> real) list option" where
  "skills_df filtered_df =
     (if length (top_skills filtered_df) > 0
      then Some (map (\<lambda>(s, n). (s, n, round1 (real n / real (len filtered_df) * 100)))
                     (top_skills filtered_df))
      else None)"

section \<open>Frequency tables (lines 220, 236, 258, 284)\<close>

definition job_cats :: "DataFrame \<Rightarrow> (string \<times> nat) list" where
  "job_cats filtered_df = head 8 (value_counts (map (Some \<circ> job_category) (rows filtered_df)))"

definition seniority_dist :: "DataFrame \<Rightarrow> (string \<times> nat) list" where
  "seniority_dist filtered_df = value_counts (map (Some \<circ> seniority) (rows filtered_df))"

definition top_companies :: "DataFrame \<Rightarrow> (string \<times> nat) list" where
  "top_companies filtered_df = head 15 (value_counts (map company (rows filtered_df)))"

definition exp_dist :: "DataFrame \<Rightarrow> (int \<times> nat) list" where
  "exp_dist filtered_df =
     head 15 (sort_index (value_counts (map min_experience_clean (rows filtered_df))))"

section \<open>Salary by experience (lines 300 to 301)\<close>

definition exp_salary :: "DataFrame \<Rightarrow> (int \<times> real option) list" where
  "exp_salary filtered_df =
     filter (\<lambda>e. fst e \<le> 15)
       (map (\<lambda>(k, g). (k, median (map avg_salary_lpa g)))
            (groupby min_experience_clean (rows filtered_df)))"

section \<open>Salary growth (lines 355 to 360)\<close>

definition junior_sal :: "DataFrame \<Rightarrow> real option" where
  "junior_sal filtered_df =
     median (map avg_salary_lpa (rows (select_rows (\<lambda>r. seniority r = ''Junior'') filtered_df)))"

definition senior_sal :: "DataFrame \<Rightarrow> real option" where
  "senior_sal filtered_df =
     median (map avg_salary_lpa (rows (select_rows (\<lambda>r. seniority r = ''Senior'') filtered_df)))"

text \<open>\<open>growth_pct\<close> is computed only under the guard of line 358; \<open>None\<close> says that the
  block was skipped.\<close>

definition growth_pct :: "DataFrame \<Rightarrow> real option" where
  "growth_pct filtered_df =
     (case (junior_sal filtered_df, senior_sal filtered_df) of
        (Some j, Some s) \<Rightarrow> if j > 0 then Some ((s - j) / j * 100) else None
      | _ \<Rightarrow> None)"

section \<open>Notions used to state the results\<close>

text \<open>Ascending, respectively descending, with NaN after every value.\<close>

definition asc_nan_last :: "real option \<Rightarrow> real option \<Rightarrow> bool" where
  "asc_nan_last a b =
     (case b of None \<Rightarrow> True | Some y \<Rightarrow> (case a of None \<Rightarrow> False | Some x \<Rightarrow> x \<le> y))"

definition desc_nan_last :: "real option \<Rightarrow> real option \<Rightarrow> bool" where
  "desc_nan_last a b =
     (case b of None \<Rightarrow> True | Some y \<Rightarrow> (case a of None \<Rightarrow> False | Some x \<Rightarrow> y \<le> x))"

text \<open>The table of line 144 before \<open>head(10)\<close> cuts it.\<close>

definition cat_salary_all :: "DataFrame \<Rightarrow> (string \<times> real option \<times> nat) list" where
  "cat_salary_all filtered_df =
     sort_values False (fst \<circ> snd)
       (filter (\<lambda>e. snd (snd e) \<ge> 5)
          (map (\<lambda>(k, g). (k, median (map avg_salary_lpa g), count_notna (map job_title g)))
               (groupby (Some \<circ> job_category) (rows filtered_df))))"

text \<open>How often a value occurs in a column, and what it means for a table of pairs
  (value, count) to be the frequency table of a column, its \<open>n\<close> most frequent entries, or
  its entries for the \<open>n\<close> lowest values.\<close>

definition frequency :: "'a option list \<Rightarrow> 'a \<Rightarrow> nat" where
  "frequency vs v = length (filter (\<lambda>x. x = Some v) vs)"

definition frequency_table :: "'a option list \<Rightarrow> ('a \<times> nat) list \<Rightarrow> bool" where
  "frequency_table vs t =
     (distinct (map fst t) \<and>
      sorted_wrt (\<lambda>a b. snd b \<le> snd a) t \<and>
      set t = {(v, n). Some v \<in> set vs \<and> n = frequency vs v})"

definition top_frequencies :: "nat \<Rightarrow> 'a option list \<Rightarrow> ('a \<times> nat) list \<Rightarrow> bool" where
  "top_frequencies n vs t =
     (length t \<le> n \<and> distinct (map fst t) \<and>
      sorted_wrt (\<lambda>a b. snd b \<le> snd a) t \<and>
      (\<forall>(v, k) \<in> set t. Some v \<in> set vs \<and> k = frequency vs v) \<and>
      (\<forall>v. Some v \<in> set vs \<and> v \<notin> fst ` set t \<longrightarrow>
           length t = n \<and> (\<forall>e \<in> set t. frequency vs v \<le> snd e)))"

definition lowest_frequencies :: "nat \<Rightarrow> 'a::linorder option list \<Rightarrow> ('a \<times> nat) list \<Rightarrow> bool" where
  "lowest_frequencies n vs t =
     (length t \<le> n \<and> distinct (map fst t) \<and> sorted (map fst t) \<and>
      (\<forall>(v, k) \<in> set t. Some v \<in> set vs \<and> k = frequency vs v) \<and>
      (\<forall>v. Some v \<in> set vs \<and> v \<notin> fst ` set t \<longrightarrow>
           length t = n \<and> (\<forall>e \<in> set t. fst e < v)))"

section \<open>Example data\<close>

text \<open>A posting with every cell present; its skill columns are the listed ones.\<close>

definition posting ::
  "string \<Rightarrow> string \<Rightarrow> string \<Rightarrow> string \<Rightarrow> real \<Rightarrow> int \<Rightarrow> string list \<Rightarrow> JobPosting" where
  "posting t co cat sen sal ex sk =
     \<lparr>job_title = Some t, company = Some co, job_category = cat, seniority = sen,
      avg_salary_lpa = Some sal, min_experience_clean = Some ex, skill = (\<lambda>col. col \<in> set sk)\<rparr>"

definition example_columns :: "string list" where
  "example_columns =
     [''job_title'', ''company'', ''job_category'', ''seniority'', ''avg_salary_lpa'',
      ''min_experience_clean'', ''skill_python'', ''skill_sql'']"

definition example_df :: DataFrame where
  "example_df =
     \<lparr>columns = example_columns,
      rows = [posting ''Analyst'' ''Acme'' ''DA'' ''Junior'' 6 1 [''skill_python''],
              posting ''Scientist'' ''Initech'' ''DS'' ''Senior'' 25 8 [''skill_python'', ''skill_sql''],
              posting ''Analyst'' ''Acme'' ''DA'' ''Mid-Level'' 10 3 [''skill_sql''],
              posting ''Analyst'' ''Initech'' ''DA'' ''Junior'' 4 0 [''skill_python''],
              posting ''Lead Analyst'' ''Acme'' ''DA'' ''Senior'' 15 20 [''skill_python''],
              posting ''Analyst'' ''Acme'' ''DA'' ''Junior'' 8 2 []]\<rparr>"

definition example_criteria :: FilterCriteria where
  "example_criteria =
     \<lparr>selected_categories = [''DA'', ''DS''], selected_seniority = ''All'',
      salary_range = (5, 30), exp_range = (0, 25)\<rparr>"

text \<open>The analyst postings of that table and one more, whose title cell is empty.\<close>

definition example_untitled_df :: DataFrame where
  "example_untitled_df =
     \<lparr>columns = example_columns,
      rows = [posting ''Analyst'' ''Acme'' ''DA'' ''Junior'' 6 1 [''skill_python''],
              posting ''Analyst'' ''Acme'' ''DA'' ''Mid-Level'' 10 3 [''skill_sql''],
              posting ''Analyst'' ''Initech'' ''DA'' ''Junior'' 4 0 [''skill_python''],
              posting ''Lead Analyst'' ''Acme'' ''DA'' ''Senior'' 15 20 [''skill_python''],
              posting ''Analyst'' ''Acme'' ''DA'' ''Junior'' 8 2 [],
              (posting [] ''Acme'' ''DA'' ''Junior'' 8 2 [])\<lparr>job_title := None\<rparr>]\<rparr>"

text \<open>Nine postings in nine categories.\<close>

definition example_nine_df :: DataFrame where
  "example_nine_df =
     \<lparr>columns = example_columns,
      rows = map (\<lambda>cat. posting ''Analyst'' ''Acme'' cat ''Junior'' 6 1 [])
               [''C1'', ''C2'', ''C3'', ''C4'', ''C5'', ''C6'', ''C7'', ''C8'', ''C9'']\<rparr>"

text \<open>A table with a negative salary, and criteria that let it through.\<close>

definition example_negative_df :: DataFrame where
  "example_negative_df =
     \<lparr>columns = example_columns,
      rows = [posting ''Analyst'' ''Acme'' ''DA'' ''Junior'' (- 1) 1 [],
              posting ''Analyst'' ''Acme'' ''DA'' ''Senior'' 5 8 []]\<rparr>"

definition example_negative_criteria :: FilterCriteria where
  "example_negative_criteria =
     \<lparr>selected_categories = [''DA''], selected_seniority = ''All'',
      salary_range = (- 1, 5), exp_range = (0, 8)\<rparr>"

section \<open>Properties of the pandas operations\<close>

lemma set_dropna: "set (dropna vs) = {x. Some x \<in> set vs}"
  by (induction vs) (auto simp: dropna_def List.map_filter_simps split: option.splits)

lemma dropna_map_Some: "dropna (map (Some \<circ> f) xs) = map f xs"
  by (induction xs) (auto simp: dropna_def List.map_filter_simps)

lemma length_dropna_le: "length (dropna vs) \<le> length vs"
  by (induction vs) (auto simp: dropna_def List.map_filter_simps split: option.splits)

lemma mset_sort_desc: "mset (sort_desc f t) = mset t"
  by (simp add: sort_desc_def)

lemma set_sort_desc: "set (sort_desc f t) = set t"
  by (simp add: sort_desc_def)

lemma length_sort_desc: "length (sort_desc f t) = length t"
  by (simp add: sort_desc_def)

lemma sorted_sort_desc: "sorted_wrt (\<lambda>a b. f b \<le> f a) (sort_desc f t)"
proof -
  have "sorted (map f (sort_key f (rev t)))" by (rule sorted_sort_key)
  then have "sorted_wrt (\<lambda>a b. f a \<le> f b) (sort_key f (rev t))"
    by (simp add: sorted_map)
  then show ?thesis
    by (simp add: sort_desc_def sorted_wrt_rev)
qed

lemma mset_sort_values: "mset (sort_values asc col t) = mset t"
proof -
  have "mset (filter (\<lambda>x. col x \<noteq> None) t) + mset (filter (\<lambda>x. col x = None) t) = mset t"
    by (induction t) auto
  then show ?thesis
    by (simp add: sort_values_def Let_def mset_sort_desc)
qed

lemma set_sort_values: "set (sort_values asc col t) = set t"
  using mset_sort_values[of asc col t] by (metis set_mset_mset)

lemma length_sort_values: "length (sort_values asc col t) = length t"
  using mset_sort_values[of asc col t] by (metis size_mset)

lemma distinct_map_mset: "mset xs = mset ys \<Longrightarrow> distinct (map f xs) = distinct (map f ys)"
  by (metis mset_eq_imp_distinct_iff mset_map)

lemma sorted_sort_values_asc:
  "sorted_wrt (\<lambda>a b. asc_nan_last (col a) (col b)) (sort_values True col t)"
proof -
  have "sorted (map (the \<circ> col) (sort_key (the \<circ> col) (filter (\<lambda>x. col x \<noteq> None) t)))"
    by (rule sorted_sort_key)
  then have "sorted_wrt (\<lambda>a b. the (col a) \<le> the (col b)) (sort_key (the \<circ> col) (filter (\<lambda>x. col x \<noteq> None) t))"
    by (simp add: sorted_map)
  then have "sorted_wrt (\<lambda>a b. asc_nan_last (col a) (col b)) (sort_key (the \<circ> col) (filter (\<lambda>x. col x \<noteq> None) t))"
    by (rule sorted_wrt_mono_rel[rotated]) (auto simp: asc_nan_last_def split: option.splits)
  moreover have "sorted_wrt (\<lambda>a b. asc_nan_last (col a) (col b)) (filter (\<lambda>x. col x = None) t)"
    by (induction t) (auto simp: asc_nan_last_def)
  ultimately show ?thesis
    by (auto simp: sort_values_def Let_def sorted_wrt_append asc_nan_last_def)
qed

lemma sorted_sort_values_desc:
  "sorted_wrt (\<lambda>a b. desc_nan_last (col a) (col b)) (sort_values False col t)"
proof -
  have "sorted_wrt (\<lambda>a b. (the \<circ> col) b \<le> (the \<circ> col) a) (sort_desc (the \<circ> col) (filter (\<lambda>x. col x \<noteq> None) t))"
    by (rule sorted_sort_desc)
  then have "sorted_wrt (\<lambda>a b. desc_nan_last (col a) (col b)) (sort_desc (the \<circ> col) (filter (\<lambda>x. col x \<noteq> None) t))"
    by (rule sorted_wrt_mono_rel[rotated]) (auto simp: desc_nan_last_def set_sort_desc split: option.splits)
  moreover have "sorted_wrt (\<lambda>a b. desc_nan_last (col a) (col b)) (filter (\<lambda>x. col x = None) t)"
    by (induction t) (auto simp: desc_nan_last_def)
  ultimately show ?thesis
    by (auto simp: sort_values_def Let_def sorted_wrt_append desc_nan_last_def)
qed

lemma sorted_wrt_take_drop:
  "sorted_wrt P xs \<Longrightarrow> a \<in> set (take n xs) \<Longrightarrow> b \<in> set (drop n xs) \<Longrightarrow> P a b"
  by (metis append_take_drop_id sorted_wrt_append)

lemma groupby_keys: "map fst (groupby key t) = sort (remdups (dropna (map key t)))"
  by (simp add: groupby_def comp_def)

lemma distinct_groupby: "distinct (map fst (groupby key t))"
  by (simp add: groupby_keys)

lemma sorted_groupby: "sorted (map fst (groupby key t))"
  by (simp add: groupby_keys)

lemma set_groupby:
  "set (groupby key t) = {(k, g). Some k \<in> key ` set t \<and> g = filter (\<lambda>r. key r = Some k) t}"
  by (auto simp: groupby_def set_dropna)

lemma set_unique: "set (unique xs) = set xs"
  by (simp add: unique_def)

lemma distinct_unique: "distinct (unique xs)"
  by (simp add: unique_def)

lemma count_list_filter: "count_list xs v = length (filter (\<lambda>x. x = v) xs)"
  by (induction xs) auto

lemma set_value_counts:
  "set (value_counts vs) = {(v, n). Some v \<in> set vs \<and> n = length (filter (\<lambda>x. x = Some v) vs)}"
proof -
  have "count_list (dropna vs) v = length (filter (\<lambda>x. x = Some v) vs)" for v
    by (induction vs) (auto simp: dropna_def List.map_filter_simps split: option.splits)
  then show ?thesis
    by (auto simp: value_counts_def Let_def set_sort_desc set_unique set_dropna)
qed

lemma distinct_value_counts: "distinct (map fst (value_counts vs))"
proof -
  have "distinct (map fst (map (\<lambda>v. (v, count_list (dropna vs) v)) (unique (dropna vs))))"
    by (simp add: comp_def distinct_unique)
  then show ?thesis
    unfolding value_counts_def Let_def
    using distinct_map_mset[OF mset_sort_desc] by blast
qed

lemma sorted_value_counts: "sorted_wrt (\<lambda>a b. snd b \<le> snd a) (value_counts vs)"
  by (simp add: value_counts_def Let_def sorted_sort_desc)

lemma set_grouped_medians:
  "set (map (\<lambda>(k, g). (k, median (map avg_salary_lpa g))) (groupby key t)) =
   {(k, m). Some k \<in> key ` set t \<and> m = median (map avg_salary_lpa (filter (\<lambda>r. key r = Some k) t))}"
  by (auto simp: set_groupby)

lemma fst_grouped: "map fst (map (\<lambda>(k, g). (k, h g)) (groupby key t)) = map fst (groupby key t)"
  by (simp add: comp_def case_prod_beta)

lemma count_notna_le: "count_notna vs \<le> length vs"
  by (simp add: count_notna_def length_dropna_le)

lemma count_notna_all: "\<forall>v \<in> set vs. v \<noteq> None \<Longrightarrow> count_notna vs = length vs"
  by (induction vs) (auto simp: count_notna_def dropna_def List.map_filter_simps split: option.splits)

lemma set_cat_agg:
  "set (map (\<lambda>(k, g). (k, median (map avg_salary_lpa g), count_notna (map job_title g)))
            (groupby (Some \<circ> job_category) t)) =
   {(k, m, n). k \<in> job_category ` set t \<and>
      m = median (map avg_salary_lpa (filter (\<lambda>r. job_category r = k) t)) \<and>
      n = count_notna (map job_title (filter (\<lambda>r. job_category r = k) t))}"
  by (auto simp: set_groupby)

lemma cat_salary_take: "cat_salary f = take 10 (cat_salary_all f)"
  by (simp add: cat_salary_def cat_salary_all_def Let_def head_def)

lemma set_cat_salary_all:
  "set (cat_salary_all f) =
   {(k, m, n). k \<in> job_category ` set (rows f) \<and>
      m = median (map avg_salary_lpa (filter (\<lambda>r. job_category r = k) (rows f))) \<and>
      n = count_notna (map job_title (filter (\<lambda>r. job_category r = k) (rows f))) \<and> 5 \<le> n}"
  unfolding cat_salary_all_def set_sort_values set_filter set_cat_agg by auto

lemma distinct_cat_salary_all: "distinct (map fst (cat_salary_all f))"
proof -
  have "distinct (map fst (map (\<lambda>(k, g). (k, median (map avg_salary_lpa g), count_notna (map job_title g)))
               (groupby (Some \<circ> job_category) (rows f))))"
    by (simp only: fst_grouped distinct_groupby)
  then have "distinct (map fst (filter (\<lambda>e. snd (snd e) \<ge> 5) (map (\<lambda>(k, g). (k, median (map avg_salary_lpa g), count_notna (map job_title g)))
               (groupby (Some \<circ> job_category) (rows f)))))"
    by (rule distinct_map_filter)
  then show ?thesis
    unfolding cat_salary_all_def using distinct_map_mset[OF mset_sort_values] by blast
qed

lemma sorted_cat_salary_all:
  "sorted_wrt (\<lambda>a b. desc_nan_last (fst (snd a)) (fst (snd b))) (cat_salary_all f)"
  unfolding cat_salary_all_def using sorted_sort_values_desc[of "fst \<circ> snd"] by simp

lemma frequency_table_value_counts: "frequency_table vs (value_counts vs)"
  unfolding frequency_table_def frequency_def
  using distinct_value_counts[of vs] sorted_value_counts[of vs] set_value_counts[of vs]
  by blast

lemma in_take_or_drop: "x \<in> set xs \<Longrightarrow> x \<notin> set (take n xs) \<Longrightarrow> x \<in> set (drop n xs)"
  by (metis Un_iff append_take_drop_id set_append)

lemma drop_nonempty_length_take: "x \<in> set (drop n xs) \<Longrightarrow> length (take n xs) = n"
  by (cases "n \<le> length xs") auto

lemma top_frequencies_head: "top_frequencies n vs (head n (value_counts vs))"
proof -
  let ?all = "value_counts vs"
  let ?t = "take n ?all"
  have ft: "frequency_table vs ?all" by (rule frequency_table_value_counts)
  have len: "length ?t \<le> n" by simp
  have dist: "distinct (map fst ?t)"
    using ft unfolding frequency_table_def take_map[symmetric] by (simp add: distinct_take)
  have srt: "sorted_wrt (\<lambda>a b. snd b \<le> snd a) ?t"
    using ft unfolding frequency_table_def by (simp add: sorted_wrt_take)
  have ent: "\<forall>(v, k) \<in> set ?t. Some v \<in> set vs \<and> k = frequency vs v"
    using ft set_take_subset[of n ?all] unfolding frequency_table_def by blast
  have top: "\<forall>v. Some v \<in> set vs \<and> v \<notin> fst ` set ?t \<longrightarrow>
           length ?t = n \<and> (\<forall>e \<in> set ?t. frequency vs v \<le> snd e)"
  proof (intro allI impI)
    fix v assume a: "Some v \<in> set vs \<and> v \<notin> fst ` set ?t"
    then have "(v, frequency vs v) \<in> set ?all"
      using ft unfolding frequency_table_def by blast
    moreover have "(v, frequency vs v) \<notin> set ?t" using a by force
    ultimately have d: "(v, frequency vs v) \<in> set (drop n ?all)" by (rule in_take_or_drop)
    have "\<forall>e \<in> set ?t. frequency vs v \<le> snd e"
    proof
      fix e assume "e \<in> set ?t"
      from sorted_wrt_take_drop[OF sorted_value_counts this d] show "frequency vs v \<le> snd e"
        by simp
    qed
    with drop_nonempty_length_take[OF d] show "length ?t = n \<and> (\<forall>e \<in> set ?t. frequency vs v \<le> snd e)"
      by blast
  qed
  from len dist srt ent top show ?thesis
    unfolding top_frequencies_def head_def by blast
qed

lemma lowest_frequencies_head: "lowest_frequencies n vs (head n (sort_index (value_counts vs)))"
proof -
  let ?all = "sort_index (value_counts vs)"
  let ?t = "take n ?all"
  have ft: "frequency_table vs (value_counts vs)" by (rule frequency_table_value_counts)
  have set_all: "set ?all = {(v, k). Some v \<in> set vs \<and> k = frequency vs v}"
    using ft unfolding frequency_table_def sort_index_def by simp
  have dist_all: "distinct (map fst ?all)"
    using distinct_value_counts[of vs]
      distinct_map_mset[of "sort_key fst (value_counts vs)" "value_counts vs" fst]
    unfolding sort_index_def by simp
  have srt_all: "sorted (map fst ?all)"
    unfolding sort_index_def by (rule sorted_sort_key)
  then have strict: "sorted_wrt (\<lambda>a b. fst a < fst b) ?all"
    using dist_all by (metis sorted_wrt_map strict_sorted_iff)
  have len: "length ?t \<le> n" by simp
  have dist: "distinct (map fst ?t)"
    using dist_all unfolding take_map[symmetric] by (simp add: distinct_take)
  have srt: "sorted (map fst ?t)"
    using srt_all unfolding take_map[symmetric] by (simp add: sorted_wrt_take)
  have ent: "\<forall>(v, k) \<in> set ?t. Some v \<in> set vs \<and> k = frequency vs v"
    using set_all set_take_subset[of n ?all] by blast
  have top: "\<forall>v. Some v \<in> set vs \<and> v \<notin> fst ` set ?t \<longrightarrow>
           length ?t = n \<and> (\<forall>e \<in> set ?t. fst e < v)"
  proof (intro allI impI)
    fix v assume a: "Some v \<in> set vs \<and> v \<notin> fst ` set ?t"
    then have "(v, frequency vs v) \<in> set ?all"
      using set_all by blast
    moreover have "(v, frequency vs v) \<notin> set ?t" using a by force
    ultimately have d: "(v, frequency vs v) \<in> set (drop n ?all)" by (rule in_take_or_drop)
    have "\<forall>e \<in> set ?t. fst e < v"
    proof
      fix e assume "e \<in> set ?t"
      from sorted_wrt_take_drop[OF strict this d] show "fst e < v"
        by simp
    qed
    with drop_nonempty_length_take[OF d] show "length ?t = n \<and> (\<forall>e \<in> set ?t. fst e < v)"
      by blast
  qed
  from len dist srt ent top show ?thesis
    unfolding lowest_frequencies_def head_def by blast
qed

lemma update_entry:
  "(a, b) \<in> set (AList.update k v al) \<Longrightarrow> (a, b) = (k, v) \<or> (a, b) \<in> set al"
  by (induction al) (auto split: if_splits)

lemma column_sum_le: "column_sum f col \<le> len f"
  by (simp add: column_sum_def len_def)

lemma skill_counts_fold: "skill_counts f = foldl (count_step f) [] (skill_cols f)"
  by (simp add: skill_counts_def)

lemma fold_entries:
  "(s, n) \<in> set (foldl (count_step f) d cols) \<Longrightarrow>
   (s, n) \<in> set d \<or> (\<exists>col \<in> set cols. s = skill_name col \<and> n = column_sum f col \<and> 0 < n)"
proof (induction cols arbitrary: d)
  case Nil
  then show ?case by simp
next
  case (Cons c cols)
  from Cons.IH[of "count_step f d c"] Cons.prems
  have "(s, n) \<in> set (count_step f d c) \<or>
        (\<exists>col \<in> set cols. s = skill_name col \<and> n = column_sum f col \<and> 0 < n)"
    by simp
  then show ?case
  proof
    assume "(s, n) \<in> set (count_step f d c)"
    then have "(s, n) \<in> set d \<or> (s = skill_name c \<and> n = column_sum f c \<and> 0 < n)"
      by (auto simp: count_step_def Let_def split: if_splits dest: update_entry)
    then show ?thesis by auto
  next
    assume "\<exists>col \<in> set cols. s = skill_name col \<and> n = column_sum f col \<and> 0 < n"
    then show ?thesis by auto
  qed
qed

lemma fold_distinct:
  "distinct (map fst d) \<Longrightarrow> distinct (map fst (foldl (count_step f) d cols))"
proof (induction cols arbitrary: d)
  case Nil
  then show ?case by simp
next
  case (Cons c cols)
  have "distinct (map fst (count_step f d c))"
    using Cons.prems by (simp add: count_step_def Let_def distinct_update)
  from Cons.IH[OF this] show ?case by simp
qed

lemma fold_keys:
  "fst ` set (foldl (count_step f) d cols) =
   fst ` set d \<union> {skill_name col | col. col \<in> set cols \<and> 0 < column_sum f col}"
proof (induction cols arbitrary: d)
  case Nil
  then show ?case by simp
next
  case (Cons c cols)
  have "fst ` set (count_step f d c) =
        fst ` set d \<union> (if 0 < column_sum f c then {skill_name c} else {})"
    by (auto simp: count_step_def Let_def dom_update)
  with Cons.IH[of "count_step f d c"] show ?case
    by (auto split: if_splits)
qed

lemma skill_counts_entries:
  "(s, n) \<in> set (skill_counts f) \<Longrightarrow>
   \<exists>col \<in> set (skill_cols f). s = skill_name col \<and> n = column_sum f col \<and> 0 < n"
  using fold_entries[of s n f "[]" "skill_cols f"] by (simp add: skill_counts_fold)

lemma skill_counts_distinct: "distinct (map fst (skill_counts f))"
  using fold_distinct[of "[]" f "skill_cols f"] by (simp add: skill_counts_fold)

lemma skill_counts_keys:
  "fst ` set (skill_counts f) =
   {skill_name col | col. col \<in> set (skill_cols f) \<and> 0 < column_sum f col}"
  using fold_keys[of f "[]" "skill_cols f"] by (simp add: skill_counts_fold)

lemma rint_cases:
  "(rint x = \<lfloor>x\<rfloor> \<and> x - of_int \<lfloor>x\<rfloor> \<le> 1 / 2) \<or>
   (rint x = \<lfloor>x\<rfloor> + 1 \<and> 1 / 2 \<le> x - of_int \<lfloor>x\<rfloor>)"
  unfolding rint_def Let_def by (cases "x - of_int \<lfloor>x\<rfloor> < 1 / 2"; cases "x - of_int \<lfloor>x\<rfloor> > 1 / 2") auto

lemma rint_bounds: "x - 1 / 2 \<le> of_int (rint x) \<and> of_int (rint x) \<le> x + 1 / 2"
proof -
  have fl: "of_int \<lfloor>x\<rfloor> \<le> x" "x < of_int \<lfloor>x\<rfloor> + 1" by linarith+
  from rint_cases[of x] show ?thesis
  proof
    assume a: "rint x = \<lfloor>x\<rfloor> \<and> x - of_int \<lfloor>x\<rfloor> \<le> 1 / 2"
    then have "real_of_int (rint x) = of_int \<lfloor>x\<rfloor>" by simp
    with a fl show ?thesis by linarith
  next
    assume a: "rint x = \<lfloor>x\<rfloor> + 1 \<and> 1 / 2 \<le> x - of_int \<lfloor>x\<rfloor>"
    then have "real_of_int (rint x) = of_int \<lfloor>x\<rfloor> + 1" by simp
    with a fl show ?thesis by linarith
  qed
qed

lemma rint_between: "of_int a \<le> x \<Longrightarrow> x \<le> of_int b \<Longrightarrow> a \<le> rint x \<and> rint x \<le> b"
proof -
  assume a: "of_int a \<le> x" and b: "x \<le> of_int b"
  have fl: "a \<le> \<lfloor>x\<rfloor>" using a by (simp add: le_floor_iff)
  have fb: "\<lfloor>x\<rfloor> \<le> b" using b by (metis floor_mono floor_of_int)
  from rint_cases[of x] show ?thesis
  proof
    assume "rint x = \<lfloor>x\<rfloor> \<and> x - of_int \<lfloor>x\<rfloor> \<le> 1 / 2"
    with fl fb show ?thesis by simp
  next
    assume c: "rint x = \<lfloor>x\<rfloor> + 1 \<and> 1 / 2 \<le> x - of_int \<lfloor>x\<rfloor>"
    have "\<lfloor>x\<rfloor> \<noteq> b"
    proof
      assume "\<lfloor>x\<rfloor> = b"
      with b c show False by simp
    qed
    with fb have "\<lfloor>x\<rfloor> + 1 \<le> b" by simp
    with c fl show ?thesis by simp
  qed
qed

lemma round1_bounds: "0 \<le> x \<Longrightarrow> x \<le> 100 \<Longrightarrow> 0 \<le> round1 x \<and> round1 x \<le> 100"
proof -
  assume "0 \<le> x" "x \<le> 100"
  then have "of_int 0 \<le> x * 10" "x * 10 \<le> of_int 1000" by simp_all
  from rint_between[OF this] have "0 \<le> rint (x * 10)" "rint (x * 10) \<le> 1000" by simp_all
  then have "(0::real) \<le> of_int (rint (x * 10))" "of_int (rint (x * 10)) \<le> (1000::real)"
    by linarith+
  then show ?thesis by (simp add: round1_def)
qed

lemma round1_close: "\<bar>round1 x - x\<bar> \<le> 1 / 20"
proof -
  from rint_bounds[of "x * 10"]
  have "x * 10 - 1 / 2 \<le> of_int (rint (x * 10))" "of_int (rint (x * 10)) \<le> x * 10 + 1 / 2"
    by simp_all
  then have "x - 1 / 20 \<le> round1 x" "round1 x \<le> x + 1 / 20"
    unfolding round1_def by linarith+
  then show ?thesis by linarith
qed



lemma top_skills_subset: "set (top_skills f) \<subseteq> set (skill_counts f)"
  unfolding top_skills_def using set_take_subset[of 12 "sort_desc snd (skill_counts f)"]
  by (simp add: set_sort_desc)

lemma share_bounds:
  assumes "0 < n" "n \<le> m"
  shows "0 \<le> real n / real m * 100 \<and> real n / real m * 100 \<le> 100"
proof -
  have "0 < real m" using assms by simp
  moreover have "real n \<le> real m" using assms by simp
  ultimately have "real n / real m \<le> 1" by (simp add: divide_le_eq_1)
  then have "real n / real m * 100 \<le> 1 * 100" by (rule mult_right_mono) simp
  moreover have "0 \<le> real n / real m * 100" by simp
  ultimately show ?thesis by simp
qed

lemma median_of_cases:
  assumes "xs \<noteq> []"
  shows "median_of xs = Some (sort xs ! (length xs div 2)) \<or>
         median_of xs = Some ((sort xs ! (length xs div 2 - 1) + sort xs ! (length xs div 2)) / 2)"
proof -
  have n: "length (sort xs) \<noteq> 0" using assms by simp
  show ?thesis
  proof (cases "odd (length (sort xs))")
    case True
    have "median_of xs = Some (sort xs ! (length (sort xs) div 2))"
      unfolding median_of_def Let_def using n True by (simp only: if_False if_True simp_thms)
    then show ?thesis by simp
  next
    case False
    have "median_of xs =
        Some ((sort xs ! (length (sort xs) div 2 - 1) + sort xs ! (length (sort xs) div 2)) / 2)"
      unfolding median_of_def Let_def using n False by (simp only: if_False if_True simp_thms)
    then show ?thesis by simp
  qed
qed

lemma median_of_None_iff: "median_of xs = None \<longleftrightarrow> xs = []"
proof (cases "xs = []")
  case True
  then show ?thesis by (simp add: median_of_def)
next
  case False
  from median_of_cases[OF this] have "median_of xs \<noteq> None" by auto
  with False show ?thesis by simp
qed

lemma median_of_nonneg:
  assumes "\<forall>x \<in> set xs. 0 \<le> x" "median_of xs = Some m"
  shows "0 \<le> m"
proof -
  have ne: "xs \<noteq> []" using assms(2) median_of_None_iff[of xs] by auto
  have nth: "0 \<le> sort xs ! i" if "i < length xs" for i
  proof -
    have "sort xs ! i \<in> set (sort xs)" using that by (intro nth_mem) simp
    then show ?thesis using assms(1) by simp
  qed
  have a: "length xs div 2 < length xs" using ne by simp
  have b: "length xs div 2 - 1 < length xs" using a by (rule le_less_trans[OF diff_le_self])
  from median_of_cases[OF ne] assms(2)
  have "m = sort xs ! (length xs div 2) \<or>
        m = (sort xs ! (length xs div 2 - 1) + sort xs ! (length xs div 2)) / 2"
    by auto
  then show ?thesis using nth[OF a] nth[OF b] by auto
qed

lemma dropna_eq_Nil_iff: "dropna vs = [] \<longleftrightarrow> (\<forall>v \<in> set vs. v = None)"
  by (induction vs) (auto simp: dropna_def List.map_filter_simps split: option.splits)

section \<open>Properties of the filter\<close>

lemma between_iff: "between v lo hi \<longleftrightarrow> (\<exists>x. v = Some x \<and> lo \<le> x \<and> x \<le> hi)"
  by (cases v) (simp_all add: between_def)

lemma rows_select_rows: "rows (select_rows p df) = filter p (rows df)"
  by (simp add: select_rows_def)

lemma columns_select_rows: "columns (select_rows p df) = columns df"
  by (simp add: select_rows_def)

lemma rows_apply_filters: "rows (apply_filters df c) = filter (satisfies c) (rows df)"
proof (cases "selected_seniority c = ''All''")
  case True
  then show ?thesis
    by (auto simp: apply_filters_def Let_def rows_select_rows satisfies_def isin_def between_iff
             intro!: filter_cong)
next
  case False
  have "rows (apply_filters df c) =
        filter (\<lambda>r. seniority r = selected_seniority c)
          (filter (\<lambda>r. isin (job_category r) (selected_categories c) \<and>
                       between (avg_salary_lpa r) (fst (salary_range c)) (snd (salary_range c)) \<and>
                       between (min_experience_clean r) (fst (exp_range c)) (snd (exp_range c)))
                  (rows df))"
    using False by (simp add: apply_filters_def Let_def rows_select_rows)
  also have "\<dots> = filter (satisfies c) (rows df)"
    using False by (auto simp: satisfies_def isin_def between_iff intro!: filter_cong)
  finally show ?thesis .
qed

lemma columns_apply_filters: "columns (apply_filters df c) = columns df"
  by (simp add: apply_filters_def Let_def columns_select_rows)

lemma view_salary_present:
  "r \<in> set (rows (apply_filters df c)) \<Longrightarrow> \<exists>s. avg_salary_lpa r = Some s"
  by (auto simp: rows_apply_filters satisfies_def)

lemma view_experience_present:
  "r \<in> set (rows (apply_filters df c)) \<Longrightarrow> \<exists>e. min_experience_clean r = Some e"
  by (auto simp: rows_apply_filters satisfies_def)

lemma view_group_median_None_iff:
  "median (map avg_salary_lpa (filter p (rows (apply_filters df c)))) = None \<longleftrightarrow>
   filter p (rows (apply_filters df c)) = []"
proof -
  have "\<forall>r \<in> set (filter p (rows (apply_filters df c))). avg_salary_lpa r \<noteq> None"
    using view_salary_present[of _ df c] by auto
  then show ?thesis
    unfolding median_def median_of_None_iff dropna_eq_Nil_iff
    by (cases "filter p (rows (apply_filters df c))") auto
qed

lemma view_group_median_nonneg:
  assumes "\<forall>r \<in> set (rows df). \<forall>s. avg_salary_lpa r = Some s \<longrightarrow> 0 \<le> s"
    and "median (map avg_salary_lpa (filter p (rows (apply_filters df c)))) = Some m"
  shows "0 \<le> m"
proof -
  have "\<forall>x \<in> set (dropna (map avg_salary_lpa (filter p (rows (apply_filters df c))))). 0 \<le> x"
    using assms(1) by (auto simp: set_dropna rows_apply_filters)
  from median_of_nonneg[OF this] assms(2) show ?thesis by (simp add: median_def)
qed



lemma rows_no_category: "rows (apply_filters df (c\<lparr>selected_categories := []\<rparr>)) = []"
  by (simp add: rows_apply_filters satisfies_def)

section \<open>The aggregates at the example table\<close>

lemma rows_example_view:
  "rows (apply_filters example_df example_criteria) =
     [posting ''Analyst'' ''Acme'' ''DA'' ''Junior'' 6 1 [''skill_python''],
      posting ''Scientist'' ''Initech'' ''DS'' ''Senior'' 25 8 [''skill_python'', ''skill_sql''],
      posting ''Analyst'' ''Acme'' ''DA'' ''Mid-Level'' 10 3 [''skill_sql''],
      posting ''Lead Analyst'' ''Acme'' ''DA'' ''Senior'' 15 20 [''skill_python''],
      posting ''Analyst'' ''Acme'' ''DA'' ''Junior'' 8 2 []]"
  by (simp add: rows_apply_filters example_df_def example_criteria_def satisfies_def posting_def)

lemma salary_by_seniority_example:
  "salary_by_seniority example_df =
     [(''Junior'', Some 6), (''Mid-Level'', Some 10), (''Senior'', Some 20)]"
  by (simp add: salary_by_seniority_def example_df_def posting_def groupby_def dropna_def
        List.map_filter_simps sort_values_def median_def median_of_def Let_def)

lemma cat_salary_example: "cat_salary example_df = [(''DA'', Some 8, 5)]"
  by (simp add: cat_salary_def example_df_def posting_def groupby_def dropna_def head_def
        List.map_filter_simps sort_values_def sort_desc_def median_def median_of_def Let_def
        count_notna_def)

lemma top_companies_example: "top_companies example_df = [(''Acme'', 4), (''Initech'', 2)]"
  by (simp add: top_companies_def head_def value_counts_def Let_def example_df_def posting_def
        dropna_def List.map_filter_simps unique_def sort_desc_def)

lemma seniority_dist_example:
  "seniority_dist example_df = [(''Junior'', 3), (''Senior'', 2), (''Mid-Level'', 1)]"
  by (simp add: seniority_dist_def value_counts_def Let_def example_df_def posting_def
        dropna_def List.map_filter_simps unique_def sort_desc_def)

lemma exp_dist_example:
  "exp_dist example_df = [(0, 1), (1, 1), (2, 1), (3, 1), (8, 1), (20, 1)]"
  by (simp add: exp_dist_def head_def sort_index_def value_counts_def Let_def example_df_def
        posting_def dropna_def List.map_filter_simps unique_def sort_desc_def)

lemma job_cats_example_nine:
  "job_cats example_nine_df =
     [(''C1'', 1), (''C2'', 1), (''C3'', 1), (''C4'', 1), (''C5'', 1), (''C6'', 1), (''C7'', 1), (''C8'', 1)]"
  by (simp add: job_cats_def head_def value_counts_def Let_def example_nine_df_def posting_def
        dropna_def List.map_filter_simps unique_def sort_desc_def)

lemma skill_name_python: "skill_name ''skill_python'' = ''Python''"
  by code_simp

lemma skill_name_sql: "skill_name ''skill_sql'' = ''Sql''"
  by code_simp

lemma skill_cols_example: "skill_cols example_df = [''skill_python'', ''skill_sql'']"
  by (simp add: skill_cols_def example_df_def example_columns_def startswith_def)

lemma column_sum_example:
  "column_sum example_df ''skill_python'' = 4" "column_sum example_df ''skill_sql'' = 2"
  by (simp_all add: column_sum_def example_df_def posting_def)

lemma skill_counts_example: "skill_counts example_df = [(''Python'', 4), (''Sql'', 2)]"
  by (simp add: skill_counts_fold skill_cols_example count_step_def column_sum_example
        skill_name_python skill_name_sql)

lemma top_skills_example: "top_skills example_df = [(''Python'', 4), (''Sql'', 2)]"
  by (simp add: top_skills_def skill_counts_example sort_desc_def)

lemma len_example: "len example_df = 6"
  by (simp add: len_def example_df_def)

lemma skills_df_example:
  "skills_df example_df = Some [(''Python'', 4, 667 / 10), (''Sql'', 2, 333 / 10)]"
  by (simp add: skills_df_def top_skills_example len_example round1_def rint_def Let_def)

lemma nonneg_example: "\<forall>r \<in> set (rows example_df). \<forall>s. avg_salary_lpa r = Some s \<longrightarrow> 0 \<le> s"
  by (simp add: example_df_def posting_def)

lemma growth_example: "growth_pct (apply_filters example_df example_criteria) = Some (1300 / 7)"
  by (simp add: growth_pct_def junior_sal_def senior_sal_def rows_select_rows rows_example_view
        posting_def median_def median_of_def dropna_def List.map_filter_simps Let_def)

lemma untitled_view:
  "apply_filters example_untitled_df (example_criteria\<lparr>salary_range := (0, 30)\<rparr>) =
   example_untitled_df"
  by (simp add: apply_filters_def Let_def select_rows_def example_untitled_df_def
        example_criteria_def isin_def between_def posting_def)

lemma negative_view:
  "apply_filters example_negative_df example_negative_criteria = example_negative_df"
  by (simp add: apply_filters_def Let_def select_rows_def example_negative_df_def
        example_negative_criteria_def isin_def between_def posting_def)

section \<open>The claims\<close>

text \<open>
  Claim C1. The filtered view consists of exactly the rows of the table that satisfy the
  conjunction of the four predicates (category selected, salary in the closed interval,
  experience in the closed interval, seniority equal to the selector unless that is "All"),
  in their order: every retained row satisfies all of them, every excluded row violates
  one, and with no category selected the view has no row.
\<close>

theorem filter_exact:
  "rows (apply_filters df c) = filter (satisfies c) (rows df) \<and>
   (\<forall>r \<in> set (rows (apply_filters df c)). r \<in> set (rows df) \<and> satisfies c r) \<and>
   (\<forall>r \<in> set (rows df). r \<notin> set (rows (apply_filters df c)) \<longrightarrow> \<not> satisfies c r) \<and>
   (selected_categories c = [] \<longrightarrow> rows (apply_filters df c) = [])"
  by (auto simp: rows_apply_filters satisfies_def)

text \<open>The filter at the example table: the posting at 4 LPA is below the salary interval.\<close>

theorem filter_exact_witness:
  "posting ''Analyst'' ''Acme'' ''DA'' ''Junior'' 6 1 [''skill_python'']
     \<in> set (rows (apply_filters example_df example_criteria)) \<and>
   satisfies example_criteria (posting ''Analyst'' ''Acme'' ''DA'' ''Junior'' 6 1 [''skill_python'']) \<and>
   posting ''Analyst'' ''Initech'' ''DA'' ''Junior'' 4 0 [''skill_python'']
     \<notin> set (rows (apply_filters example_df example_criteria)) \<and>
   \<not> satisfies example_criteria (posting ''Analyst'' ''Initech'' ''DA'' ''Junior'' 4 0 [''skill_python'']) \<and>
   rows (apply_filters example_df (example_criteria\<lparr>selected_categories := []\<rparr>)) = []"
proof -
  have kept: "posting ''Analyst'' ''Acme'' ''DA'' ''Junior'' 6 1 [''skill_python'']
     \<in> set (rows (apply_filters example_df example_criteria))"
    by (simp add: rows_example_view)
  have in_table: "posting ''Analyst'' ''Initech'' ''DA'' ''Junior'' 4 0 [''skill_python'']
     \<in> set (rows example_df)"
    by (simp add: example_df_def)
  have dropped: "posting ''Analyst'' ''Initech'' ''DA'' ''Junior'' 4 0 [''skill_python'']
     \<notin> set (rows (apply_filters example_df example_criteria))"
    by (simp add: rows_example_view posting_def)
  have none: "selected_categories (example_criteria\<lparr>selected_categories := []\<rparr>) = []"
    by simp
  from filter_exact[of example_df example_criteria] kept in_table dropped
    filter_exact[of example_df "example_criteria\<lparr>selected_categories := []\<rparr>"] none
  show ?thesis by blast
qed

text \<open>
  Claim C7. Filtering is idempotent: applying the same criteria to the view they produced
  gives that view again.
\<close>

theorem filter_idempotent:
  "apply_filters (apply_filters df c) c = apply_filters df c"
proof -
  have "rows (apply_filters (apply_filters df c) c) = rows (apply_filters df c)"
    by (simp add: rows_apply_filters)
  moreover have "columns (apply_filters (apply_filters df c) c) = columns (apply_filters df c)"
    by (simp add: columns_apply_filters)
  moreover have "DataFrame.more (apply_filters (apply_filters df c) c) = DataFrame.more (apply_filters df c)"
    by (simp add: apply_filters_def Let_def select_rows_def)
  ultimately show ?thesis by simp
qed

text \<open>Filtering the example view again.\<close>

theorem filter_idempotent_witness:
  "apply_filters (apply_filters example_df example_criteria) example_criteria =
   apply_filters example_df example_criteria"
  by (rule filter_idempotent[of example_df example_criteria])

text \<open>
  Claim C9. The worked example of the specification: with the categories Data Analyst and
  Data Scientist, seniority "All", salaries from 5 to 20 and experience from 0 to 10, the
  table of the three postings (Data Analyst, Junior, 6 LPA, 1 year), (Data Scientist,
  Senior, 25 LPA, 8 years) and (Data Analyst, Mid-Level, 10 LPA, 3 years) is filtered to the
  first and the third posting, the count is 2 and the median salary is 8. The cells the
  example leaves open (title, company, skills, the other columns) are arbitrary.
\<close>

theorem worked_example:
  "rows (apply_filters
          \<lparr>columns = cols,
           rows = [\<lparr>job_title = t1, company = c1, job_category = ''Data Analyst'',
                    seniority = ''Junior'', avg_salary_lpa = Some 6,
                    min_experience_clean = Some 1, skill = k1\<rparr>,
                   \<lparr>job_title = t2, company = c2, job_category = ''Data Scientist'',
                    seniority = ''Senior'', avg_salary_lpa = Some 25,
                    min_experience_clean = Some 8, skill = k2\<rparr>,
                   \<lparr>job_title = t3, company = c3, job_category = ''Data Analyst'',
                    seniority = ''Mid-Level'', avg_salary_lpa = Some 10,
                    min_experience_clean = Some 3, skill = k3\<rparr>]\<rparr>
          \<lparr>selected_categories = [''Data Analyst'', ''Data Scientist''],
           selected_seniority = ''All'', salary_range = (5, 20), exp_range = (0, 10)\<rparr>) =
     [\<lparr>job_title = t1, company = c1, job_category = ''Data Analyst'',
       seniority = ''Junior'', avg_salary_lpa = Some 6,
       min_experience_clean = Some 1, skill = k1\<rparr>,
      \<lparr>job_title = t3, company = c3, job_category = ''Data Analyst'',
       seniority = ''Mid-Level'', avg_salary_lpa = Some 10,
       min_experience_clean = Some 3, skill = k3\<rparr>] \<and>
   total_jobs (apply_filters
          \<lparr>columns = cols,
           rows = [\<lparr>job_title = t1, company = c1, job_category = ''Data Analyst'',
                    seniority = ''Junior'', avg_salary_lpa = Some 6,
                    min_experience_clean = Some 1, skill = k1\<rparr>,
                   \<lparr>job_title = t2, company = c2, job_category = ''Data Scientist'',
                    seniority = ''Senior'', avg_salary_lpa = Some 25,
                    min_experience_clean = Some 8, skill = k2\<rparr>,
                   \<lparr>job_title = t3, company = c3, job_category = ''Data Analyst'',
                    seniority = ''Mid-Level'', avg_salary_lpa = Some 10,
                    min_experience_clean = Some 3, skill = k3\<rparr>]\<rparr>
          \<lparr>selected_categories = [''Data Analyst'', ''Data Scientist''],
           selected_seniority = ''All'', salary_range = (5, 20), exp_range = (0, 10)\<rparr>) = 2 \<and>
   median_salary (apply_filters
          \<lparr>columns = cols,
           rows = [\<lparr>job_title = t1, company = c1, job_category = ''Data Analyst'',
                    seniority = ''Junior'', avg_salary_lpa = Some 6,
                    min_experience_clean = Some 1, skill = k1\<rparr>,
                   \<lparr>job_title = t2, company = c2, job_category = ''Data Scientist'',
                    seniority = ''Senior'', avg_salary_lpa = Some 25,
                    min_experience_clean = Some 8, skill = k2\<rparr>,
                   \<lparr>job_title = t3, company = c3, job_category = ''Data Analyst'',
                    seniority = ''Mid-Level'', avg_salary_lpa = Some 10,
                    min_experience_clean = Some 3, skill = k3\<rparr>]\<rparr>
          \<lparr>selected_categories = [''Data Analyst'', ''Data Scientist''],
           selected_seniority = ''All'', salary_range = (5, 20), exp_range = (0, 10)\<rparr>) = Some 8"
  by (simp add: apply_filters_def Let_def select_rows_def isin_def between_def total_jobs_def
        len_def median_salary_def median_def median_of_def dropna_def List.map_filter_simps)

text \<open>
  Claim C8. The table of median salaries by seniority has one entry for each seniority
  value of the view, each with the median salary of the rows of that seniority, and is in
  ascending order of the median (an undefined median after every number).
\<close>

theorem salary_by_seniority_spec:
  "fst ` set (salary_by_seniority f) = seniority ` set (rows f) \<and>
   distinct (map fst (salary_by_seniority f)) \<and>
   (\<forall>(k, m) \<in> set (salary_by_seniority f).
       m = median (map avg_salary_lpa (filter (\<lambda>r. seniority r = k) (rows f)))) \<and>
   sorted_wrt (\<lambda>a b. asc_nan_last (snd a) (snd b)) (salary_by_seniority f)"
proof -
  let ?g = "map (\<lambda>(k, g). (k, median (map avg_salary_lpa g))) (groupby (Some \<circ> seniority) (rows f))"
  have set_eq: "set (salary_by_seniority f) =
      {(k, m). k \<in> seniority ` set (rows f) \<and>
               m = median (map avg_salary_lpa (filter (\<lambda>r. seniority r = k) (rows f)))}"
    unfolding salary_by_seniority_def set_sort_values set_grouped_medians by auto
  have keys: "fst ` set (salary_by_seniority f) = seniority ` set (rows f)"
    unfolding set_eq by force
  have "distinct (map fst ?g)"
    by (simp only: fst_grouped distinct_groupby)
  then have dist: "distinct (map fst (salary_by_seniority f))"
    unfolding salary_by_seniority_def using distinct_map_mset[OF mset_sort_values] by blast
  have vals: "\<forall>(k, m) \<in> set (salary_by_seniority f).
       m = median (map avg_salary_lpa (filter (\<lambda>r. seniority r = k) (rows f)))"
    unfolding set_eq by auto
  have srt: "sorted_wrt (\<lambda>a b. asc_nan_last (snd a) (snd b)) (salary_by_seniority f)"
    unfolding salary_by_seniority_def by (rule sorted_sort_values_asc)
  from keys dist vals srt show ?thesis by blast
qed

text \<open>At the example table the Senior postings earn 25 and 15, so their entry is 20.\<close>

theorem salary_by_seniority_witness:
  "(''Senior'', Some 20) \<in> set (salary_by_seniority example_df) \<and>
   Some 20 = median (map avg_salary_lpa (filter (\<lambda>r. seniority r = ''Senior'') (rows example_df)))"
proof -
  have "(''Senior'', Some 20) \<in> set (salary_by_seniority example_df)"
    by (simp add: salary_by_seniority_example)
  with salary_by_seniority_spec[of example_df] show ?thesis by blast
qed

text \<open>
  Claim C10. The series of median salary by experience has exactly the experience values
  of the view that are at most 15, in ascending order, each with the median salary of the
  rows of that experience; no row with more than 15 years contributes an entry, whatever
  the experience filter let through.
\<close>

theorem exp_salary_spec:
  "fst ` set (exp_salary f) = {e. Some e \<in> min_experience_clean ` set (rows f) \<and> e \<le> 15} \<and>
   sorted (map fst (exp_salary f)) \<and> distinct (map fst (exp_salary f)) \<and>
   (\<forall>(e, m) \<in> set (exp_salary f).
       m = median (map avg_salary_lpa (filter (\<lambda>r. min_experience_clean r = Some e) (rows f)))) \<and>
   (\<forall>r \<in> set (rows f). \<forall>e. min_experience_clean r = Some e \<and> 15 < e \<longrightarrow>
       e \<notin> fst ` set (exp_salary f))"
proof -
  let ?g = "map (\<lambda>(k, g). (k, median (map avg_salary_lpa g))) (groupby min_experience_clean (rows f))"
  have set_eq: "set (exp_salary f) =
      {(e, m). Some e \<in> min_experience_clean ` set (rows f) \<and> e \<le> 15 \<and>
               m = median (map avg_salary_lpa (filter (\<lambda>r. min_experience_clean r = Some e) (rows f)))}"
    unfolding exp_salary_def set_filter set_grouped_medians by auto
  have keys: "fst ` set (exp_salary f) = {e. Some e \<in> min_experience_clean ` set (rows f) \<and> e \<le> 15}"
    unfolding set_eq by force
  have "sorted (map fst ?g)" "distinct (map fst ?g)"
    by (simp_all only: fst_grouped distinct_groupby sorted_groupby)
  then have srt: "sorted (map fst (exp_salary f))" and dist: "distinct (map fst (exp_salary f))"
    unfolding exp_salary_def by (simp_all add: sorted_filter distinct_map_filter)
  have vals: "\<forall>(e, m) \<in> set (exp_salary f).
       m = median (map avg_salary_lpa (filter (\<lambda>r. min_experience_clean r = Some e) (rows f)))"
    unfolding set_eq by auto
  have cut: "\<forall>r \<in> set (rows f). \<forall>e. min_experience_clean r = Some e \<and> 15 < e \<longrightarrow>
       e \<notin> fst ` set (exp_salary f)"
    unfolding keys by auto
  from keys dist vals srt cut show ?thesis by blast
qed

text \<open>At the example view the lead analyst with 20 years passes the experience filter
  (0 to 25) and has no entry, while the posting with 8 years has one.\<close>

theorem exp_salary_witness:
  "posting ''Lead Analyst'' ''Acme'' ''DA'' ''Senior'' 15 20 [''skill_python'']
     \<in> set (rows (apply_filters example_df example_criteria)) \<and>
   20 \<notin> fst ` set (exp_salary (apply_filters example_df example_criteria)) \<and>
   (8, Some 25) \<in> set (exp_salary (apply_filters example_df example_criteria)) \<and>
   Some 25 = median (map avg_salary_lpa (filter (\<lambda>r. min_experience_clean r = Some 8)
                       (rows (apply_filters example_df example_criteria))))"
proof -
  have r: "posting ''Lead Analyst'' ''Acme'' ''DA'' ''Senior'' 15 20 [''skill_python'']
     \<in> set (rows (apply_filters example_df example_criteria))"
    by (simp add: rows_example_view)
  have e: "min_experience_clean (posting ''Lead Analyst'' ''Acme'' ''DA'' ''Senior'' 15 20 [''skill_python''])
      = Some 20 \<and> (15::int) < 20"
    by (simp add: posting_def)
  have m: "(8, Some 25) \<in> set (exp_salary (apply_filters example_df example_criteria))"
    by (simp add: exp_salary_def rows_example_view posting_def groupby_def dropna_def
        List.map_filter_simps median_def median_of_def Let_def)
  from exp_salary_spec[of "apply_filters example_df example_criteria"] r e m
  show ?thesis by blast
qed

text \<open>
  Claim C3, as amended. The category table has at most 10 entries with distinct
  categories, in descending order of the median salary. Each entry is a category of the
  view with the median salary of its rows and the count of its rows that have a job title;
  that count is at least 5, so the category has at least 5 rows, and the count is the number
  of rows of the category when no title is missing in the view. A category with such a
  count of at least 5 is left out only when the table is full, and then its median is not
  above any median in the table.
\<close>

theorem cat_salary_spec:
  "length (cat_salary f) \<le> 10 \<and>
   distinct (map fst (cat_salary f)) \<and>
   sorted_wrt (\<lambda>a b. desc_nan_last (fst (snd a)) (fst (snd b))) (cat_salary f) \<and>
   (\<forall>(k, m, n) \<in> set (cat_salary f).
       k \<in> job_category ` set (rows f) \<and>
       m = median (map avg_salary_lpa (filter (\<lambda>r. job_category r = k) (rows f))) \<and>
       n = count_notna (map job_title (filter (\<lambda>r. job_category r = k) (rows f))) \<and>
       5 \<le> n \<and> 5 \<le> length (filter (\<lambda>r. job_category r = k) (rows f)) \<and>
       ((\<forall>r \<in> set (rows f). job_title r \<noteq> None) \<longrightarrow>
          n = length (filter (\<lambda>r. job_category r = k) (rows f)))) \<and>
   (\<forall>k \<in> job_category ` set (rows f).
       5 \<le> count_notna (map job_title (filter (\<lambda>r. job_category r = k) (rows f))) \<longrightarrow>
       k \<notin> fst ` set (cat_salary f) \<longrightarrow>
       length (cat_salary f) = 10 \<and>
       (\<forall>e \<in> set (cat_salary f).
          desc_nan_last (fst (snd e))
            (median (map avg_salary_lpa (filter (\<lambda>r. job_category r = k) (rows f))))))"
proof -
  have len: "length (cat_salary f) \<le> 10"
    by (simp add: cat_salary_take)
  have dist: "distinct (map fst (cat_salary f))"
    unfolding cat_salary_take take_map[symmetric] by (rule distinct_take[OF distinct_cat_salary_all])
  have srt: "sorted_wrt (\<lambda>a b. desc_nan_last (fst (snd a)) (fst (snd b))) (cat_salary f)"
    unfolding cat_salary_take by (rule sorted_wrt_take[OF sorted_cat_salary_all])
  have sub: "set (cat_salary f) \<subseteq> set (cat_salary_all f)"
    unfolding cat_salary_take by (rule set_take_subset)
  have entries: "\<forall>(k, m, n) \<in> set (cat_salary f).
       k \<in> job_category ` set (rows f) \<and>
       m = median (map avg_salary_lpa (filter (\<lambda>r. job_category r = k) (rows f))) \<and>
       n = count_notna (map job_title (filter (\<lambda>r. job_category r = k) (rows f))) \<and>
       5 \<le> n \<and> 5 \<le> length (filter (\<lambda>r. job_category r = k) (rows f)) \<and>
       ((\<forall>r \<in> set (rows f). job_title r \<noteq> None) \<longrightarrow>
          n = length (filter (\<lambda>r. job_category r = k) (rows f)))"
  proof (clarify, intro conjI impI)
    fix k m n assume "(k, m, n) \<in> set (cat_salary f)"
    then have a: "(k, m, n) \<in> set (cat_salary_all f)" using sub by blast
    then show "k \<in> job_category ` set (rows f)"
      and "m = median (map avg_salary_lpa (filter (\<lambda>r. job_category r = k) (rows f)))"
      and n: "n = count_notna (map job_title (filter (\<lambda>r. job_category r = k) (rows f)))"
      and "5 \<le> n"
      unfolding set_cat_salary_all by auto
    have "n \<le> length (filter (\<lambda>r. job_category r = k) (rows f))"
      using count_notna_le[of "map job_title (filter (\<lambda>r. job_category r = k) (rows f))"] n by simp
    with \<open>5 \<le> n\<close> show "5 \<le> length (filter (\<lambda>r. job_category r = k) (rows f))" by simp
    assume "\<forall>r \<in> set (rows f). job_title r \<noteq> None"
    then show "n = length (filter (\<lambda>r. job_category r = k) (rows f))"
      using count_notna_all[of "map job_title (filter (\<lambda>r. job_category r = k) (rows f))"] n by auto
  qed
  have top: "\<forall>k \<in> job_category ` set (rows f).
       5 \<le> count_notna (map job_title (filter (\<lambda>r. job_category r = k) (rows f))) \<longrightarrow>
       k \<notin> fst ` set (cat_salary f) \<longrightarrow>
       length (cat_salary f) = 10 \<and>
       (\<forall>e \<in> set (cat_salary f).
          desc_nan_last (fst (snd e))
            (median (map avg_salary_lpa (filter (\<lambda>r. job_category r = k) (rows f)))))"
  proof (intro ballI impI)
    fix k
    let ?m = "median (map avg_salary_lpa (filter (\<lambda>r. job_category r = k) (rows f)))"
    let ?n = "count_notna (map job_title (filter (\<lambda>r. job_category r = k) (rows f)))"
    assume k: "k \<in> job_category ` set (rows f)" and n: "5 \<le> ?n"
      and out: "k \<notin> fst ` set (cat_salary f)"
    have "(k, ?m, ?n) \<in> set (cat_salary_all f)"
      unfolding set_cat_salary_all using k n by auto
    moreover have "(k, ?m, ?n) \<notin> set (take 10 (cat_salary_all f))"
      using out unfolding cat_salary_take by force
    ultimately have d: "(k, ?m, ?n) \<in> set (drop 10 (cat_salary_all f))"
      by (metis Un_iff append_take_drop_id set_append)
    then have "drop 10 (cat_salary_all f) \<noteq> []" by auto
    then have l: "length (cat_salary f) = 10"
      unfolding cat_salary_take by simp
    have "\<forall>e \<in> set (cat_salary f). desc_nan_last (fst (snd e)) ?m"
    proof
      fix e assume "e \<in> set (cat_salary f)"
      then have "e \<in> set (take 10 (cat_salary_all f))" by (simp add: cat_salary_take)
      from sorted_wrt_take_drop[OF sorted_cat_salary_all this d]
      show "desc_nan_last (fst (snd e)) ?m" by simp
    qed
    with l show "length (cat_salary f) = 10 \<and> (\<forall>e \<in> set (cat_salary f). desc_nan_last (fst (snd e)) ?m)"
      by blast
  qed
  from len dist srt entries top show ?thesis by blast
qed

text \<open>At the example table the five analyst postings make the only entry.\<close>

theorem cat_salary_witness:
  "(''DA'', Some 8, 5) \<in> set (cat_salary example_df) \<and>
   ''DA'' \<in> job_category ` set (rows example_df) \<and>
   5 \<le> length (filter (\<lambda>r. job_category r = ''DA'') (rows example_df)) \<and>
   ''DS'' \<notin> fst ` set (cat_salary example_df)"
proof -
  have "(''DA'', Some 8, 5) \<in> set (cat_salary example_df)"
    by (simp add: cat_salary_example)
  moreover have "distinct (map fst (cat_salary example_df)) \<longrightarrow> ''DS'' \<notin> fst ` set (cat_salary example_df)"
    by (simp add: cat_salary_example)
  ultimately show ?thesis
    using cat_salary_spec[of example_df] by blast
qed

text \<open>With a sixth analyst whose title is missing, and criteria that let every posting
  through, the category has six rows in the view and the table gives it the count 5: the
  count is not the number of rows.\<close>

theorem cat_salary_counterexample:
  "cat_salary (apply_filters example_untitled_df (example_criteria\<lparr>salary_range := (0, 30)\<rparr>)) =
     [(''DA'', Some 8, 5)] \<and>
   map job_category
     (rows (apply_filters example_untitled_df (example_criteria\<lparr>salary_range := (0, 30)\<rparr>))) =
     [''DA'', ''DA'', ''DA'', ''DA'', ''DA'', ''DA'']"
  unfolding untitled_view
  by (simp add: cat_salary_def example_untitled_df_def posting_def groupby_def dropna_def head_def
        List.map_filter_simps sort_values_def sort_desc_def median_def median_of_def Let_def
        count_notna_def)

text \<open>
  Claim C5. The frequency tables: the companies table holds the 15 most frequent companies
  of the view and the categories table the 8 most frequent categories, each value with the
  number of rows that have it, most frequent first; the seniority table holds every
  seniority value of the view with its number of rows, most frequent first; the experience
  table holds the 15 lowest experience values of the view with their numbers of rows, in
  ascending order of the experience value.
\<close>

theorem frequency_tables_spec:
  "top_frequencies 15 (map company (rows f)) (top_companies f) \<and>
   top_frequencies 8 (map (Some \<circ> job_category) (rows f)) (job_cats f) \<and>
   frequency_table (map (Some \<circ> seniority) (rows f)) (seniority_dist f) \<and>
   lowest_frequencies 15 (map min_experience_clean (rows f)) (exp_dist f)"
  unfolding top_companies_def job_cats_def seniority_dist_def exp_dist_def
  using top_frequencies_head lowest_frequencies_head frequency_table_value_counts by blast

text \<open>At the example table Acme has four postings, Junior three and the experience of 20
  years one; of nine categories with one posting each the ninth is cut.\<close>

theorem frequency_tables_witness:
  "(''Acme'', 4) \<in> set (top_companies example_df) \<and>
   4 = frequency (map company (rows example_df)) ''Acme'' \<and>
   Some ''C9'' \<in> set (map (Some \<circ> job_category) (rows example_nine_df)) \<and>
   ''C9'' \<notin> fst ` set (job_cats example_nine_df) \<and>
   length (job_cats example_nine_df) = 8 \<and>
   (''Junior'', 3) \<in> set (seniority_dist example_df) \<and>
   3 = frequency (map (Some \<circ> seniority) (rows example_df)) ''Junior'' \<and>
   (20, 1) \<in> set (exp_dist example_df) \<and>
   1 = frequency (map min_experience_clean (rows example_df)) 20"
proof -
  have a: "(''Acme'', 4) \<in> set (top_companies example_df)"
    by (simp add: top_companies_example)
  have b: "Some ''C9'' \<in> set (map (Some \<circ> job_category) (rows example_nine_df))"
    by (simp add: example_nine_df_def posting_def)
  have c: "''C9'' \<notin> fst ` set (job_cats example_nine_df)"
    by (simp add: job_cats_example_nine)
  have d: "(''Junior'', 3) \<in> set (seniority_dist example_df)"
    by (simp add: seniority_dist_example)
  have e: "(20, 1) \<in> set (exp_dist example_df)"
    by (simp add: exp_dist_example)
  from frequency_tables_spec[of example_df] a
  have a': "4 = frequency (map company (rows example_df)) ''Acme''"
    unfolding top_frequencies_def by blast
  from frequency_tables_spec[of example_nine_df] b c
  have c': "length (job_cats example_nine_df) = 8"
    unfolding top_frequencies_def by blast
  from frequency_tables_spec[of example_df] d
  have d': "3 = frequency (map (Some \<circ> seniority) (rows example_df)) ''Junior''"
    unfolding frequency_table_def by blast
  from frequency_tables_spec[of example_df] e
  have e': "1 = frequency (map min_experience_clean (rows example_df)) 20"
    unfolding lowest_frequencies_def by blast
  from a a' b c c' d d' e e' show ?thesis by blast
qed

text \<open>
  Claim C4. The skills table has at most 12 skills with distinct names, in descending order
  of the count. Each count is the sum of a boolean column whose name starts with
  \<open>skill_\<close>, is positive and at most the number of rows of the view; the names counted are
  those of the skill columns with a positive sum, and a counted skill is left out only when
  the table is full and no count in the table is below its own. When a skill is shown, its
  percentage is count / view size * 100 rounded to one decimal: it differs from the exact
  share by at most 0.05 and lies between 0 and 100.
\<close>

theorem skills_spec:
  "length (top_skills f) \<le> 12 \<and>
   distinct (map fst (top_skills f)) \<and>
   sorted_wrt (\<lambda>a b. snd b \<le> snd a) (top_skills f) \<and>
   (\<forall>(s, n) \<in> set (top_skills f).
       0 < n \<and> n \<le> len f \<and>
       (\<exists>col \<in> set (columns f).
          startswith col ''skill_'' \<and> s = skill_name col \<and> n = column_sum f col)) \<and>
   fst ` set (skill_counts f) =
     {skill_name col | col. col \<in> set (columns f) \<and> startswith col ''skill_'' \<and>
                            0 < column_sum f col} \<and>
   (\<forall>(s, n) \<in> set (skill_counts f).
       s \<notin> fst ` set (top_skills f) \<longrightarrow>
       length (top_skills f) = 12 \<and> (\<forall>e \<in> set (top_skills f). n \<le> snd e)) \<and>
   (case skills_df f of
      None \<Rightarrow> top_skills f = []
    | Some t \<Rightarrow>
        top_skills f \<noteq> [] \<and> map (\<lambda>(s, n, p). (s, n)) t = top_skills f \<and>
        (\<forall>(s, n, p) \<in> set t.
           p = round1 (real n / real (len f) * 100) \<and>
           \<bar>p - real n / real (len f) * 100\<bar> \<le> 1 / 20 \<and> 0 \<le> p \<and> p \<le> 100))"
proof -
  let ?all = "sort_desc snd (skill_counts f)"
  have take: "top_skills f = take 12 ?all" by (simp add: top_skills_def)
  have len: "length (top_skills f) \<le> 12" by (simp add: take)
  have "distinct (map fst ?all)"
    using skill_counts_distinct[of f] distinct_map_mset[OF mset_sort_desc] by blast
  then have dist: "distinct (map fst (top_skills f))"
    unfolding take take_map[symmetric] by (rule distinct_take)
  have srt_all: "sorted_wrt (\<lambda>a b. snd b \<le> snd a) ?all" by (rule sorted_sort_desc)
  then have srt: "sorted_wrt (\<lambda>a b. snd b \<le> snd a) (top_skills f)"
    unfolding take by (rule sorted_wrt_take)
  have ent: "\<forall>(s, n) \<in> set (top_skills f).
       0 < n \<and> n \<le> len f \<and>
       (\<exists>col \<in> set (columns f).
          startswith col ''skill_'' \<and> s = skill_name col \<and> n = column_sum f col)"
  proof clarify
    fix s n assume "(s, n) \<in> set (top_skills f)"
    then have "(s, n) \<in> set (skill_counts f)" using top_skills_subset by blast
    from skill_counts_entries[OF this]
    obtain col where c: "col \<in> set (skill_cols f)" "s = skill_name col"
      "n = column_sum f col" "0 < n" by blast
    then have "col \<in> set (columns f)" "startswith col ''skill_''"
      by (simp_all add: skill_cols_def)
    with c column_sum_le[of f col]
    show "0 < n \<and> n \<le> len f \<and>
       (\<exists>col \<in> set (columns f).
          startswith col ''skill_'' \<and> s = skill_name col \<and> n = column_sum f col)"
      by blast
  qed
  have keys: "fst ` set (skill_counts f) =
     {skill_name col | col. col \<in> set (columns f) \<and> startswith col ''skill_'' \<and>
                            0 < column_sum f col}"
    unfolding skill_counts_keys by (auto simp: skill_cols_def)
  have top: "\<forall>(s, n) \<in> set (skill_counts f).
       s \<notin> fst ` set (top_skills f) \<longrightarrow>
       length (top_skills f) = 12 \<and> (\<forall>e \<in> set (top_skills f). n \<le> snd e)"
  proof (clarify)
    fix s n assume a: "(s, n) \<in> set (skill_counts f)" and out: "s \<notin> fst ` set (top_skills f)"
    have "(s, n) \<in> set ?all" using a by (simp add: set_sort_desc)
    moreover have "(s, n) \<notin> set (take 12 ?all)" using out unfolding take by force
    ultimately have d: "(s, n) \<in> set (drop 12 ?all)" by (rule in_take_or_drop)
    have "\<forall>e \<in> set (top_skills f). n \<le> snd e"
    proof
      fix e assume "e \<in> set (top_skills f)"
      then have "e \<in> set (take 12 ?all)" by (simp add: take)
      from sorted_wrt_take_drop[OF srt_all this d] show "n \<le> snd e" by simp
    qed
    with drop_nonempty_length_take[OF d]
    show "length (top_skills f) = 12 \<and> (\<forall>e \<in> set (top_skills f). n \<le> snd e)"
      unfolding take by blast
  qed
  have tab: "(case skills_df f of
      None \<Rightarrow> top_skills f = []
    | Some t \<Rightarrow>
        top_skills f \<noteq> [] \<and> map (\<lambda>(s, n, p). (s, n)) t = top_skills f \<and>
        (\<forall>(s, n, p) \<in> set t.
           p = round1 (real n / real (len f) * 100) \<and>
           \<bar>p - real n / real (len f) * 100\<bar> \<le> 1 / 20 \<and> 0 \<le> p \<and> p \<le> 100))"
  proof (cases "top_skills f = []")
    case True
    then show ?thesis by (simp add: skills_df_def)
  next
    case False
    let ?t = "map (\<lambda>(s, n). (s, n, round1 (real n / real (len f) * 100))) (top_skills f)"
    have sd: "skills_df f = Some ?t" using False by (simp add: skills_df_def)
    have proj: "map (\<lambda>(s, n, p). (s, n)) ?t = top_skills f"
      by (simp add: comp_def case_prod_beta)
    have rows: "\<forall>(s, n, p) \<in> set ?t.
           p = round1 (real n / real (len f) * 100) \<and>
           \<bar>p - real n / real (len f) * 100\<bar> \<le> 1 / 20 \<and> 0 \<le> p \<and> p \<le> 100"
    proof clarify
      fix s n p assume "(s, n, p) \<in> set ?t"
      then have m: "(s, n) \<in> set (top_skills f)" and p: "p = round1 (real n / real (len f) * 100)"
        by auto
      from ent m have "0 < n" "n \<le> len f" by auto
      from share_bounds[OF this] round1_bounds[of "real n / real (len f) * 100"]
      have "0 \<le> p \<and> p \<le> 100" using p by blast
      with p round1_close[of "real n / real (len f) * 100"]
      show "p = round1 (real n / real (len f) * 100) \<and>
           \<bar>p - real n / real (len f) * 100\<bar> \<le> 1 / 20 \<and> 0 \<le> p \<and> p \<le> 100"
        by blast
    qed
    from False proj rows show ?thesis unfolding sd by simp
  qed
  from len dist srt ent keys top tab show ?thesis by blast
qed

text \<open>At the example table of six postings Python is flagged in four: 66.7 percent.\<close>

theorem skills_witness:
  "(''Python'', 4) \<in> set (top_skills example_df) \<and> 4 \<le> len example_df \<and>
   skills_df example_df = Some [(''Python'', 4, 667 / 10), (''Sql'', 2, 333 / 10)] \<and>
   (667 / 10 :: real) = round1 (real 4 / real (len example_df) * 100) \<and>
   (667 / 10 :: real) \<le> 100"
proof -
  have a: "(''Python'', 4) \<in> set (top_skills example_df)"
    by (simp add: top_skills_example)
  have b: "(''Python'', 4, 667 / 10) \<in> set [(''Python'', 4, 667 / 10), (''Sql'', 2, 333 / 10 :: real)]"
    by simp
  from skills_spec[of example_df] a have "4 \<le> len example_df" by blast
  moreover from skills_spec[of example_df] b
  have "(667 / 10 :: real) = round1 (real 4 / real (len example_df) * 100) \<and> (667 / 10 :: real) \<le> 100"
    unfolding skills_df_example by fastforce
  ultimately show ?thesis using a skills_df_example by blast
qed

text \<open>
  Claim C6, as amended. For every table and criteria, on the filtered view: the growth block
  is skipped exactly when the view has no Junior row, or no Senior row, or the median
  salary of its Junior rows is not positive (the guard of line 358 is \<open>junior_sal > 0\<close>); when
  it is computed, the growth is (median of the Senior rows - median of the Junior rows) /
  median of the Junior rows * 100; and for a table whose salaries are not negative, "not
  positive" is "zero".
\<close>

theorem growth_spec:
  "(growth_pct (apply_filters df c) = None \<longleftrightarrow>
      filter (\<lambda>r. seniority r = ''Junior'') (rows (apply_filters df c)) = [] \<or>
      filter (\<lambda>r. seniority r = ''Senior'') (rows (apply_filters df c)) = [] \<or>
      (\<exists>j. median (map avg_salary_lpa
                 (filter (\<lambda>r. seniority r = ''Junior'') (rows (apply_filters df c)))) = Some j \<and>
           j \<le> 0)) \<and>
   (\<forall>g. growth_pct (apply_filters df c) = Some g \<longrightarrow>
      (\<exists>j s. median (map avg_salary_lpa
                 (filter (\<lambda>r. seniority r = ''Junior'') (rows (apply_filters df c)))) = Some j \<and>
             median (map avg_salary_lpa
                 (filter (\<lambda>r. seniority r = ''Senior'') (rows (apply_filters df c)))) = Some s \<and>
             0 < j \<and> g = (s - j) / j * 100)) \<and>
   ((\<forall>r \<in> set (rows df). \<forall>s. avg_salary_lpa r = Some s \<longrightarrow> 0 \<le> s) \<longrightarrow>
      (growth_pct (apply_filters df c) = None \<longleftrightarrow>
        filter (\<lambda>r. seniority r = ''Junior'') (rows (apply_filters df c)) = [] \<or>
        filter (\<lambda>r. seniority r = ''Senior'') (rows (apply_filters df c)) = [] \<or>
        median (map avg_salary_lpa
                 (filter (\<lambda>r. seniority r = ''Junior'') (rows (apply_filters df c)))) = Some 0))"
proof -
  let ?f = "apply_filters df c"
  let ?J = "filter (\<lambda>r. seniority r = ''Junior'') (rows ?f)"
  let ?S = "filter (\<lambda>r. seniority r = ''Senior'') (rows ?f)"
  have js: "junior_sal ?f = median (map avg_salary_lpa ?J)"
    by (simp add: junior_sal_def rows_select_rows)
  have ss: "senior_sal ?f = median (map avg_salary_lpa ?S)"
    by (simp add: senior_sal_def rows_select_rows)
  have jn: "median (map avg_salary_lpa ?J) = None \<longleftrightarrow> ?J = []"
    by (rule view_group_median_None_iff)
  have sn: "median (map avg_salary_lpa ?S) = None \<longleftrightarrow> ?S = []"
    by (rule view_group_median_None_iff)
  have skip: "growth_pct ?f = None \<longleftrightarrow>
      ?J = [] \<or> ?S = [] \<or> (\<exists>j. median (map avg_salary_lpa ?J) = Some j \<and> j \<le> 0)"
  proof (cases "median (map avg_salary_lpa ?J)")
    case None
    then show ?thesis using jn by (simp add: growth_pct_def js)
  next
    case (Some j)
    note J = this
    then have jne: "?J \<noteq> []" using jn by auto
    show ?thesis
    proof (cases "median (map avg_salary_lpa ?S)")
      case None
      then show ?thesis using sn J by (simp add: growth_pct_def js ss)
    next
      case (Some s)
      then have sne: "?S \<noteq> []" using sn by auto
      show ?thesis using J Some jne sne
        by (auto simp: growth_pct_def js ss)
    qed
  qed
  have val: "\<forall>g. growth_pct ?f = Some g \<longrightarrow>
      (\<exists>j s. median (map avg_salary_lpa ?J) = Some j \<and>
             median (map avg_salary_lpa ?S) = Some s \<and> 0 < j \<and> g = (s - j) / j * 100)"
    by (auto simp: growth_pct_def js ss split: option.splits if_splits)
  have zero: "(\<forall>r \<in> set (rows df). \<forall>s. avg_salary_lpa r = Some s \<longrightarrow> 0 \<le> s) \<longrightarrow>
      (growth_pct ?f = None \<longleftrightarrow>
        ?J = [] \<or> ?S = [] \<or> median (map avg_salary_lpa ?J) = Some 0)"
  proof
    assume nn: "\<forall>r \<in> set (rows df). \<forall>s. avg_salary_lpa r = Some s \<longrightarrow> 0 \<le> s"
    have "(\<exists>j. median (map avg_salary_lpa ?J) = Some j \<and> j \<le> 0) \<longleftrightarrow>
          median (map avg_salary_lpa ?J) = Some 0"
      using view_group_median_nonneg[OF nn, of "\<lambda>r. seniority r = ''Junior''" c] by force
    with skip show "growth_pct ?f = None \<longleftrightarrow>
        ?J = [] \<or> ?S = [] \<or> median (map avg_salary_lpa ?J) = Some 0"
      by simp
  qed
  from skip val zero show ?thesis by blast
qed

text \<open>At the example view the Junior median is 7 and the Senior median 20; its salaries are
  not negative.\<close>

theorem growth_witness:
  "growth_pct (apply_filters example_df example_criteria) = Some (1300 / 7) \<and>
   filter (\<lambda>r. seniority r = ''Junior'') (rows (apply_filters example_df example_criteria)) \<noteq> [] \<and>
   filter (\<lambda>r. seniority r = ''Senior'') (rows (apply_filters example_df example_criteria)) \<noteq> [] \<and>
   median (map avg_salary_lpa
      (filter (\<lambda>r. seniority r = ''Junior'') (rows (apply_filters example_df example_criteria))))
     \<noteq> Some 0 \<and>
   junior_sal (apply_filters example_df example_criteria) = Some 7 \<and>
   senior_sal (apply_filters example_df example_criteria) = Some 20"
proof -
  have g: "growth_pct (apply_filters example_df example_criteria) = Some (1300 / 7)"
    by (rule growth_example)
  have m: "junior_sal (apply_filters example_df example_criteria) = Some 7 \<and>
           senior_sal (apply_filters example_df example_criteria) = Some 20"
    by (simp add: junior_sal_def senior_sal_def rows_select_rows rows_example_view
        posting_def median_def median_of_def dropna_def List.map_filter_simps Let_def)
  from growth_spec[of example_df example_criteria] nonneg_example g
  have "filter (\<lambda>r. seniority r = ''Junior'') (rows (apply_filters example_df example_criteria)) \<noteq> [] \<and>
   filter (\<lambda>r. seniority r = ''Senior'') (rows (apply_filters example_df example_criteria)) \<noteq> [] \<and>
   median (map avg_salary_lpa
      (filter (\<lambda>r. seniority r = ''Junior'') (rows (apply_filters example_df example_criteria))))
     \<noteq> Some 0"
    by auto
  with g m show ?thesis by blast
qed

text \<open>With a Junior posting at -1 and a Senior posting at 5, both in the view, neither group
  is empty and the Junior median is -1, not zero; the growth block is skipped all the
  same.\<close>

theorem growth_counterexample:
  "map seniority (rows (apply_filters example_negative_df example_negative_criteria)) =
     [''Junior'', ''Senior''] \<and>
   junior_sal (apply_filters example_negative_df example_negative_criteria) = Some (- 1) \<and>
   senior_sal (apply_filters example_negative_df example_negative_criteria) = Some 5 \<and>
   growth_pct (apply_filters example_negative_df example_negative_criteria) = None"
  unfolding negative_view
  by (simp add: growth_pct_def junior_sal_def senior_sal_def rows_select_rows
        example_negative_df_def posting_def median_def median_of_def dropna_def
        List.map_filter_simps Let_def)

text \<open>
  Claim C2, at the failing input. With no category selected the view is empty for every
  table. Nothing fails, and the count is shown as 0, but the median salary metric reads
  "nan LPA" after the rupee sign and the average experience metric reads "nan yrs": the NaN
  goes into the formatted text. The top category metric beside them does show "N/A".
\<close>

theorem empty_view_shows_nan:
  "rows (apply_filters df (c\<lparr>selected_categories := []\<rparr>)) = [] \<and>
   total_jobs (apply_filters df (c\<lparr>selected_categories := []\<rparr>)) = 0 \<and>
   median_salary (apply_filters df (c\<lparr>selected_categories := []\<rparr>)) = None \<and>
   median_salary_metric (apply_filters df (c\<lparr>selected_categories := []\<rparr>)) =
     [CHR 0xE2, CHR 0x82, CHR 0xB9] @ ''nan LPA'' \<and>
   avg_exp (apply_filters df (c\<lparr>selected_categories := []\<rparr>)) = None \<and>
   avg_exp_metric (apply_filters df (c\<lparr>selected_categories := []\<rparr>)) = ''nan yrs'' \<and>
   top_cat (apply_filters df (c\<lparr>selected_categories := []\<rparr>)) = ''N/A''"
  by (simp add: rows_no_category total_jobs_def len_def median_salary_metric_def median_salary_def
        median_def median_of_def avg_exp_metric_def avg_exp_def mean_def dropna_def
        List.map_filter_simps fmt_1f_def top_cat_def)

end
